theory Spec2Isabelle
  imports Complex_Main
begin

section \<open>Numbers and strings of the worker\<close>

text \<open>
  The worker is TypeScript on Cloudflare Workers.  A JavaScript \<open>number\<close> that holds
  money (\<open>wallet_balance\<close>, \<open>amount\<close>, \<open>rupeesCost\<close>) is modelled as an exact rational:
  the sums, differences and comparisons of the ledger are the exact ones, and the rounding
  of IEEE doubles is outside the model.  Credit counts are natural numbers, the result of
  \<open>Math.floor\<close> is an integer.  A string is a \<open>char list\<close>.
\<close>

type_synonym money = rat

text \<open>\<open>String.prototype.startsWith\<close> and \<open>String.prototype.includes\<close>.\<close>

primrec starts_with :: "string \<Rightarrow> string \<Rightarrow> bool" where
  "starts_with s [] = True"
| "starts_with s (c # p) = (case s of [] \<Rightarrow> False | d # t \<Rightarrow> d = c \<and> starts_with t p)"

primrec str_includes :: "string \<Rightarrow> string \<Rightarrow> bool" where
  "str_includes [] p = (p = [])"
| "str_includes (c # s) p = (starts_with (c # s) p \<or> str_includes s p)"

text \<open>\<open>s.split(d)\<close> for a one-character separator: never empty, \<open>''''.split(d) = ['''']\<close>.\<close>

fun split_on :: "char \<Rightarrow> string \<Rightarrow> string list" where
  "split_on d [] = [[]]"
| "split_on d (c # s) =
     (if c = d then [] # split_on d s
      else (case split_on d s of [] \<Rightarrow> [[c]] | p # ps \<Rightarrow> (c # p) # ps))"

text \<open>
  A template literal prints an array element that does not exist as \<open>undefined\<close>.
\<close>

definition nth_or_undefined :: "string list \<Rightarrow> nat \<Rightarrow> string" where
  "nth_or_undefined xs i = (if i < length xs then xs ! i else ''undefined'')"

text \<open>Decimal printing of the integers a template literal interpolates.\<close>

definition digit :: "nat \<Rightarrow> char" where
  "digit d = ''0123456789'' ! (d mod 10)"

fun show_nat :: "nat \<Rightarrow> string" where
  "show_nat n = (if n < 10 then [digit n] else show_nat (n div 10) @ [digit (n mod 10)])"

declare show_nat.simps [simp del]

definition show_int :: "int \<Rightarrow> string" where
  "show_int i = (if i < 0 then CHR ''-'' # show_nat (nat (- i)) else show_nat (nat i))"

section \<open>Credit cost and bonus schedule\<close>

text \<open>
  \<open>RESOLUTIONS\<close> of \<open>ImageGenerator.tsx\<close>: the \<open>value\<close> and \<open>credits\<close> columns, in the
  order of the source.  \<open>resolutionMultiplier\<close> is the lookup the component makes,
  \<open>RESOLUTIONS.find(r => r.value === resolution)?.credits || 1\<close>.
\<close>

definition RESOLUTIONS :: "(string \<times> nat) list" where
  "RESOLUTIONS =
     [(''1024x1024'', 1), (''1920x1080'', 2), (''1080x1920'', 2),
      (''2560x1440'', 3), (''3840x2160'', 5)]"

definition resolutionMultiplier :: "string \<Rightarrow> nat" where
  "resolutionMultiplier resolution =
     (case map_of RESOLUTIONS resolution of
        None \<Rightarrow> 1
      | Some c \<Rightarrow> (if c = 0 then 1 else c))"

text \<open>
  Modelled from the spec: \<open>calculateCreditCost\<close> is imported from \<open>@/shared/types\<close>, a
  module that is not among the sources; only its callers are
  (\<open>calculateCreditCost(resolution, productImages.length)\<close>).  The spec, section 4.1: the
  resolution maps to a fixed credit weight (1024x1024 to 1, 1920x1080 and 1080x1920 to 2,
  2560x1440 to 3, 3840x2160 to 5), the final cost is the resolution weight, the image
  count does not change it, and the result is an integer of at least 1.  A resolution
  outside the table, on which the spec is silent, gets the weight 1.
\<close>

definition calculateCreditCost :: "string \<Rightarrow> nat \<Rightarrow> nat" where
  "calculateCreditCost resolution imageCount =
     (if resolution = ''1024x1024'' then 1
      else if resolution = ''1920x1080'' \<or> resolution = ''1080x1920'' then 2
      else if resolution = ''2560x1440'' then 3
      else if resolution = ''3840x2160'' then 5
      else 1)"

text \<open>\<open>const rupeesCost = creditCost * 25\<close> (worker and component alike).\<close>

definition rupeesCost :: "nat \<Rightarrow> money" where
  "rupeesCost creditCost = of_nat creditCost * 25"

text \<open>
  \<open>StripeService.calculateBonusCredits\<close>: three early returns, tested from the highest
  tier down, and the final \<open>return 0\<close>.
\<close>

definition calculateBonusCredits :: "money \<Rightarrow> nat" where
  "calculateBonusCredits amount =
     (if amount \<ge> 5000 then 50
      else if amount \<ge> 2500 then 15
      else if amount \<ge> 1000 then 5
      else 0)"

text \<open>
  The metadata \<open>StripeService.createCheckoutSession\<close> attaches to the checkout session:
  \<open>user_id\<close>, \<open>base_credits\<close> and \<open>bonus_credits\<close>, the last two printed with
  \<open>toString()\<close>.  The session itself is created by the payment processor.
\<close>

record checkout_metadata =
  md_user_id :: string
  md_base_credits :: string
  md_bonus_credits :: string

definition createCheckoutSession_metadata :: "money \<Rightarrow> string \<Rightarrow> checkout_metadata" where
  "createCheckoutSession_metadata amount userId =
     (let credits = \<lfloor>amount / 25\<rfloor>;
          bonusCredits = calculateBonusCredits amount
      in \<lparr> md_user_id = userId,
           md_base_credits = show_int credits,
           md_bonus_credits = show_nat bonusCredits \<rparr>)"

section \<open>The database\<close>

text \<open>
  The D1 tables the ledger paths read and write.  \<open>users\<close> is keyed by \<open>id\<close> and only
  its \<open>wallet_balance\<close> column is modelled (the ledger paths touch no other column but
  \<open>updated_at\<close>).  The other tables are lists in insertion order, which stands for the
  autoincrement key and the \<open>created_at\<close> timestamp.  A column a statement does not set
  is \<open>None\<close>; so is a \<open>balance_after\<close> whose sub-select finds no user.
\<close>

datatype tx_type = Topup | Deduct | Bonus

record wallet_transaction =
  tx_user_id :: string
  tx_type :: tx_type
  tx_amount :: money
  tx_credits_added :: "int option"
  tx_balance_after :: "money option"
  tx_payment_gateway_id :: "string option"
  tx_description :: string

record credit_usage_row =
  cu_user_id :: string
  cu_generation_id :: string
  cu_credits_consumed :: nat
  cu_generation_type :: string
  cu_resolution :: string
  cu_prompt :: string
  cu_image_url :: string
  cu_cost_in_rupees :: money

record generated_image_row =
  gi_id :: string
  gi_user_id :: string
  gi_original_prompt :: string
  gi_enhanced_prompt :: string
  gi_image_url :: string
  gi_resolution :: string
  gi_generation_type :: string
  gi_credits_used :: nat

record database =
  users :: "string \<rightharpoonup> money"
  wallet_transactions :: "wallet_transaction list"
  credit_usage :: "credit_usage_row list"
  generated_images :: "generated_image_row list"

text \<open>
  \<open>SELECT wallet_balance FROM users WHERE id = ?\<close> followed by
  \<open>(results[0] as any)?.wallet_balance || 0\<close>: no row reads as 0, and so does a balance
  of 0.
\<close>

definition select_wallet_balance :: "database \<Rightarrow> string \<Rightarrow> money" where
  "select_wallet_balance db userId =
     (case users db userId of None \<Rightarrow> 0 | Some b \<Rightarrow> (if b = 0 then 0 else b))"

text \<open>
  \<open>UPDATE users SET wallet_balance = ? WHERE id = ?\<close>: a user that does not exist is not
  created, the statement then changes no row.
\<close>

definition update_wallet_balance :: "string \<Rightarrow> money \<Rightarrow> database \<Rightarrow> database" where
  "update_wallet_balance userId newBalance db =
     (case users db userId of
        None \<Rightarrow> db
      | Some _ \<Rightarrow> db\<lparr>users := (users db)(userId \<mapsto> newBalance)\<rparr>)"

text \<open>\<open>UPDATE users SET wallet_balance = wallet_balance + ? WHERE id = ?\<close>.\<close>

definition add_wallet_balance :: "string \<Rightarrow> money \<Rightarrow> database \<Rightarrow> database" where
  "add_wallet_balance userId amount db =
     (case users db userId of
        None \<Rightarrow> db
      | Some b \<Rightarrow> db\<lparr>users := (users db)(userId \<mapsto> b + amount)\<rparr>)"

definition insert_wallet_transaction :: "wallet_transaction \<Rightarrow> database \<Rightarrow> database" where
  "insert_wallet_transaction t db = db\<lparr>wallet_transactions := wallet_transactions db @ [t]\<rparr>"

definition insert_credit_usage :: "credit_usage_row \<Rightarrow> database \<Rightarrow> database" where
  "insert_credit_usage r db = db\<lparr>credit_usage := credit_usage db @ [r]\<rparr>"

definition insert_generated_image :: "generated_image_row \<Rightarrow> database \<Rightarrow> database" where
  "insert_generated_image r db = db\<lparr>generated_images := generated_images db @ [r]\<rparr>"

text \<open>
  A D1 statement can reject (the binding is remote).  A handler's environment names the
  first statement of the request that rejects, counted from 0 in the order the handler
  issues them, or \<open>None\<close> when every statement runs; the rejection is an exception that
  the handler's \<open>catch\<close> turns into a 500 response.  What the statements before it wrote
  stays written: the worker opens no transaction around them.
\<close>

definition rejects :: "nat option \<Rightarrow> nat \<Rightarrow> bool" where
  "rejects fault k = (fault = Some k)"

section \<open>\<open>DatabaseService.updateWalletBalance\<close>\<close>

text \<open>
  One \<open>db.batch\<close> of two statements: the relative update of the balance, and the insert
  of the ledger row whose type is \<open>amount > 0 ? 'topup' : 'deduct'\<close>, whose amount is
  \<open>Math.abs(amount)\<close> and whose \<open>balance_after\<close> is read back by a sub-select.  D1 runs
  a batch as one transaction: when a statement of it rejects, the batch rejects and
  nothing of it is written.  The result is \<open>None\<close> for the rejected batch (the database
  is then the one before the call) and the new database otherwise.  No balance check is
  made here.
\<close>

definition updateWalletBalance ::
  "nat option \<Rightarrow> string \<Rightarrow> money \<Rightarrow> string \<Rightarrow> database \<Rightarrow> database option" where
  "updateWalletBalance fault userId amount description db =
     (if rejects fault 0 then None
      else
        let db1 = add_wallet_balance userId amount db in
        if rejects fault 1 then None
        else
          Some (insert_wallet_transaction
            \<lparr> tx_user_id = userId,
              tx_type = (if amount > 0 then Topup else Deduct),
              tx_amount = \<bar>amount\<bar>,
              tx_credits_added = None,
              tx_balance_after = users db1 userId,
              tx_payment_gateway_id = None,
              tx_description = description \<rparr> db1))"

section \<open>\<open>POST /api/generate\<close>\<close>

datatype response =
    Unauthorized
  | Bad_request string
  | Insufficient_balance money money
  | Generated string string nat money string
  | Received
  | User_info string money
  | Server_error

text \<open>
  The responses of the handlers: 401 \<open>User not authenticated\<close>; 400 with an error
  text; 400 \<open>Insufficient wallet balance\<close> with \<open>required\<close> and \<open>current\<close>; 200 with
  \<open>id\<close>, \<open>imageUrl\<close>, \<open>creditsUsed\<close>, \<open>newBalance\<close> and \<open>enhancedPrompt\<close>; 200
  \<open>received: true\<close>; the 200 of \<open>GET /api/users/me\<close> with \<open>id\<close> and
  \<open>walletBalance\<close> (its other fields are columns the model does not hold); and the
  500 of a \<open>catch\<close> block.
\<close>

text \<open>\<open>enhanceProductPrompt(basePrompt, generationType, resolution)\<close>.\<close>

definition enhanceProductPrompt :: "string \<Rightarrow> string \<Rightarrow> string \<Rightarrow> string" where
  "enhanceProductPrompt basePrompt generationType resolution =
     (let enhancement =
            (if generationType = ''lifestyle'' then
               ''Professional lifestyle product photography, natural lighting, real-world setting, ''
             else if generationType = ''studio'' then
               ''Professional studio product photography, clean background, perfect lighting, commercial quality, ''
             else if generationType = ''seasonal'' then
               ''Seasonal themed product photography, atmospheric lighting, contextual elements, ''
             else if generationType = ''ecommerce'' then
               ''E-commerce product photography, clean white background, sharp focus, high detail, ''
             else ''Professional product photography, high quality, detailed, '');
          qualityEnhancement =
            (if str_includes resolution ''4K'' \<or> str_includes resolution ''2560''
             then ''ultra high resolution, 8K quality, extremely detailed, ''
             else ''high resolution, sharp focus, detailed, '')
      in enhancement @ qualityEnhancement @ basePrompt @
         '', professional commercial photography, perfect composition, award-winning photography'')"

text \<open>
  \<open>generateImageWithGoogle\<close>.  The body of its \<open>try\<close> talks to Google and to R2; its
  outcome is an input of the model: \<open>Some url\<close> when the body returns the URL of the
  stored image, \<open>None\<close> when anything in it throws (the token request, a response that
  is not ok, the R2 upload).  The \<open>catch\<close> returns the placeholder
  \<open>https://picsum.photos/${width}/${height}?random=${Date.now()}\<close>, with
  \<open>[width, height] = resolution.split('x')\<close>; the function itself never throws.
\<close>

record generation_env =
  provider_result :: "string option"
  fallback_now :: nat
  id_now :: nat
  id_random :: string
  db_fault :: "nat option"

definition placeholder_url :: "string \<Rightarrow> nat \<Rightarrow> string" where
  "placeholder_url resolution now =
     (let parts = split_on CHR ''x'' resolution;
          width = nth_or_undefined parts 0;
          height = nth_or_undefined parts 1
      in ''https://picsum.photos/'' @ width @ ''/'' @ height @ ''?random='' @ show_nat now)"

definition generateImageWithGoogle :: "generation_env \<Rightarrow> string \<Rightarrow> string" where
  "generateImageWithGoogle env resolution =
     (case provider_result env of
        Some imageUrl \<Rightarrow> imageUrl
      | None \<Rightarrow> placeholder_url resolution (fallback_now env))"

text \<open>
  The request after \<open>authMiddleware\<close> and the schema validation: the authenticated user
  (\<open>c.get("user")\<close>, which the handler still tests) and the validated body.
\<close>

record generation_request =
  req_user :: "string option"
  req_prompt :: string
  req_resolution :: string
  req_generationType :: string
  req_productImages :: "string list"

text \<open>
  What the handler holds once the balance check has passed (lines 185 to 214): the user,
  the two costs and the balance it read.
\<close>

record pending_debit =
  pd_user :: string
  pd_creditCost :: nat
  pd_rupeesCost :: money
  pd_currentBalance :: money

text \<open>
  The first half of the handler, up to the balance check.  \<open>cost\<close> stands for the
  imported \<open>calculateCreditCost\<close>.  Statement 0 is the \<open>SELECT\<close> of the balance.
\<close>

definition generate_check ::
  "(string \<Rightarrow> nat \<Rightarrow> nat) \<Rightarrow> generation_env \<Rightarrow> generation_request \<Rightarrow> database
     \<Rightarrow> response + pending_debit" where
  "generate_check cost env req db =
     (case req_user req of
        None \<Rightarrow> Inl Unauthorized
      | Some userId \<Rightarrow>
          if req_productImages req = [] then
            Inl (Bad_request ''At least one product image is required'')
          else
            let creditCost = cost (req_resolution req) (length (req_productImages req));
                rupees = rupeesCost creditCost
            in if rejects (db_fault env) 0 then Inl Server_error
               else
                 let currentBalance = select_wallet_balance db userId
                 in if currentBalance < rupees then
                      Inl (Insufficient_balance rupees currentBalance)
                    else
                      Inr \<lparr> pd_user = userId, pd_creditCost = creditCost,
                            pd_rupeesCost = rupees, pd_currentBalance = currentBalance \<rparr>)"

text \<open>
  The second half (lines 216 to 277): the image, then statement 1, the \<open>UPDATE\<close> of the
  balance to \<open>currentBalance - rupeesCost\<close>; statement 2, the ledger row; statement 3,
  the \<open>credit_usage\<close> row; statement 4, the \<open>generated_images\<close> row.  Each is awaited on
  its own.
\<close>

definition generate_commit ::
  "generation_env \<Rightarrow> generation_request \<Rightarrow> pending_debit \<Rightarrow> database
     \<Rightarrow> database \<times> response" where
  "generate_commit env req pd db =
     (let userId = pd_user pd;
          creditCost = pd_creditCost pd;
          rupees = pd_rupeesCost pd;
          enhancedPrompt =
            enhanceProductPrompt (req_prompt req) (req_generationType req) (req_resolution req);
          imageUrl = generateImageWithGoogle env (req_resolution req);
          generationId = ''img_'' @ show_nat (id_now env) @ ''_'' @ id_random env;
          newBalance = pd_currentBalance pd - rupees
      in
        if rejects (db_fault env) 1 then (db, Server_error)
        else
          let db1 = update_wallet_balance userId newBalance db in
          if rejects (db_fault env) 2 then (db1, Server_error)
          else
            let db2 = insert_wallet_transaction
                  \<lparr> tx_user_id = userId,
                    tx_type = Deduct,
                    tx_amount = rupees,
                    tx_credits_added = Some 0,
                    tx_balance_after = Some newBalance,
                    tx_payment_gateway_id = None,
                    tx_description =
                      ''Image generation - '' @ req_resolution req @ '' - '' @
                      show_nat creditCost @ '' credits'' \<rparr> db1
            in
            if rejects (db_fault env) 3 then (db2, Server_error)
            else
              let db3 = insert_credit_usage
                    \<lparr> cu_user_id = userId,
                      cu_generation_id = generationId,
                      cu_credits_consumed = creditCost,
                      cu_generation_type = req_generationType req,
                      cu_resolution = req_resolution req,
                      cu_prompt = req_prompt req,
                      cu_image_url = imageUrl,
                      cu_cost_in_rupees = rupees \<rparr> db2
              in
              if rejects (db_fault env) 4 then (db3, Server_error)
              else
                let db4 = insert_generated_image
                      \<lparr> gi_id = generationId,
                        gi_user_id = userId,
                        gi_original_prompt = req_prompt req,
                        gi_enhanced_prompt = enhancedPrompt,
                        gi_image_url = imageUrl,
                        gi_resolution = req_resolution req,
                        gi_generation_type = req_generationType req,
                        gi_credits_used = creditCost \<rparr> db3
                in (db4, Generated generationId imageUrl creditCost newBalance enhancedPrompt))"

text \<open>The handler: the check, then the commit.\<close>

definition generate ::
  "(string \<Rightarrow> nat \<Rightarrow> nat) \<Rightarrow> generation_env \<Rightarrow> generation_request \<Rightarrow> database
     \<Rightarrow> database \<times> response" where
  "generate cost env req db =
     (case generate_check cost env req db of
        Inl r \<Rightarrow> (db, r)
      | Inr pd \<Rightarrow> generate_commit env req pd db)"

section \<open>\<open>POST /api/webhook/stripe\<close>\<close>

text \<open>
  The request: the \<open>stripe-signature\<close> header and what \<open>JSON.parse\<close> makes of the
  payload: \<open>None\<close> when it throws, else the event with its \<open>type\<close> and,
  under \<open>data.object\<close>, the checkout session with \<open>id\<close>, \<open>metadata.user_id\<close> and
  \<open>amount_total\<close> (\<open>None\<close> when the object has no \<open>metadata\<close>, so that reading
  \<open>session.metadata.user_id\<close> throws).
\<close>

record checkout_session =
  session_id :: string
  session_user_id :: string
  session_amount_total :: money

record stripe_event =
  event_type :: string
  event_session :: "checkout_session option"

record webhook_request =
  wh_signature :: "string option"
  wh_event :: "stripe_event option"

record webhook_env =
  STRIPE_WEBHOOK_SECRET :: string
  wh_db_fault :: "nat option"

text \<open>
  \<open>verifyStripeSignature\<close>: \<open>signature.includes('v1=') && secret.length > 0\<close>; the
  payload is not looked at.
\<close>

definition verifyStripeSignature :: "string \<Rightarrow> string \<Rightarrow> bool" where
  "verifyStripeSignature signature secret =
     (str_includes signature ''v1='' \<and> length secret > 0)"

text \<open>
  The handler.  Statement 0 is the \<open>SELECT\<close> of the balance, statement 1 the \<open>UPDATE\<close>
  to \<open>currentBalance + amount\<close>, statement 2 the insert of the \<open>topup\<close> row, which
  carries \<open>session.id\<close> as \<open>payment_gateway_id\<close>.  No statement reads
  \<open>wallet_transactions\<close>.
\<close>

definition stripe_webhook :: "webhook_env \<Rightarrow> webhook_request \<Rightarrow> database \<Rightarrow> database \<times> response" where
  "stripe_webhook env req db =
     (case wh_signature req of
        None \<Rightarrow> (db, Bad_request ''No signature header'')
      | Some signature \<Rightarrow>
          if signature = [] then (db, Bad_request ''No signature header'')
          else if \<not> verifyStripeSignature signature (STRIPE_WEBHOOK_SECRET env) then
            (db, Bad_request ''Invalid signature'')
          else
            (case wh_event req of
               None \<Rightarrow> (db, Server_error)
             | Some event \<Rightarrow>
                 if event_type event = ''checkout.session.completed'' then
                   (case event_session event of
                      None \<Rightarrow> (db, Server_error)
                    | Some session \<Rightarrow>
                        let userId = session_user_id session;
                            amount = session_amount_total session / 100;
                            credits = \<lfloor>amount / 25\<rfloor>
                        in
                        if rejects (wh_db_fault env) 0 then (db, Server_error)
                        else
                          let currentBalance = select_wallet_balance db userId;
                              newBalance = currentBalance + amount
                          in
                          if rejects (wh_db_fault env) 1 then (db, Server_error)
                          else
                            let db1 = update_wallet_balance userId newBalance db in
                            if rejects (wh_db_fault env) 2 then (db1, Server_error)
                            else
                              (insert_wallet_transaction
                                 \<lparr> tx_user_id = userId,
                                   tx_type = Topup,
                                   tx_amount = amount,
                                   tx_credits_added = Some credits,
                                   tx_balance_after = Some newBalance,
                                   tx_payment_gateway_id = Some (session_id session),
                                   tx_description =
                                     ''Payment completed - '' @ show_int credits @
                                     '' credits added'' \<rparr> db1,
                               Received))
                 else (db, Received)))"

section \<open>\<open>GET /api/users/me\<close>\<close>



section \<open>Replaying the ledger\<close>










section \<open>Two generation requests in flight\<close>

text \<open>
  The handler awaits between its balance check and its writes (the call of the image
  provider stands there), so a second request of the same user can run its own check in
  between.  A request in flight has not started, has passed its check and holds the
  balance it read, or has answered.  \<open>advance\<close> runs its next half against the
  database; a schedule says which of two requests advances next.
\<close>

datatype progress = Not_started | Checked pending_debit | Answered response

record request_run =
  run_env :: generation_env
  run_req :: generation_request
  run_progress :: progress

definition advance ::
  "(string \<Rightarrow> nat \<Rightarrow> nat) \<Rightarrow> request_run \<Rightarrow> database \<Rightarrow> request_run \<times> database" where
  "advance cost r db =
     (case run_progress r of
        Not_started \<Rightarrow>
          (case generate_check cost (run_env r) (run_req r) db of
             Inl resp \<Rightarrow> (r\<lparr>run_progress := Answered resp\<rparr>, db)
           | Inr pd \<Rightarrow> (r\<lparr>run_progress := Checked pd\<rparr>, db))
      | Checked pd \<Rightarrow>
          (r\<lparr>run_progress := Answered (snd (generate_commit (run_env r) (run_req r) pd db))\<rparr>,
           fst (generate_commit (run_env r) (run_req r) pd db))
      | Answered resp \<Rightarrow> (r, db))"

datatype turn = First | Second

fun run_schedule ::
  "(string \<Rightarrow> nat \<Rightarrow> nat) \<Rightarrow> turn list \<Rightarrow> request_run \<Rightarrow> request_run \<Rightarrow> database
     \<Rightarrow> request_run \<times> request_run \<times> database" where
  "run_schedule cost [] a b db = (a, b, db)"
| "run_schedule cost (First # ts) a b db =
     run_schedule cost ts (fst (advance cost a db)) b (snd (advance cost a db))"
| "run_schedule cost (Second # ts) a b db =
     run_schedule cost ts a (fst (advance cost b db)) (snd (advance cost b db))"

definition new_run :: "generation_env \<Rightarrow> generation_request \<Rightarrow> request_run" where
  "new_run env req = \<lparr> run_env = env, run_req = req, run_progress = Not_started \<rparr>"

section \<open>Concrete inputs\<close>

text \<open>
  The inputs of the witnesses and counterexamples: one user, created with the balance 0
  as \<open>GET /api/users/me\<close> creates it; a signed checkout event for that user; the same
  user after a payment of 100 rupees; a generation request with one product image whose
  provider call fails; and the cost function that reads the \<open>credits\<close> column of
  \<open>RESOLUTIONS\<close>.
\<close>

definition fresh_db :: database where
  "fresh_db =
     \<lparr> users = [''user_1'' \<mapsto> 0], wallet_transactions = [],
       credit_usage = [], generated_images = [] \<rparr>"

definition webhook_env_ok :: webhook_env where
  "webhook_env_ok = \<lparr> STRIPE_WEBHOOK_SECRET = ''whsec_1'', wh_db_fault = None \<rparr>"

definition signed_event :: "string \<Rightarrow> string \<Rightarrow> money \<Rightarrow> webhook_request" where
  "signed_event eventType sid amountTotal =
     \<lparr> wh_signature = Some ''t=1,v1=ab'',
       wh_event = Some
         \<lparr> event_type = eventType,
           event_session = Some
             \<lparr> session_id = sid, session_user_id = ''user_1'',
               session_amount_total = amountTotal \<rparr> \<rparr> \<rparr>"

definition checkout_completed :: "string \<Rightarrow> money \<Rightarrow> webhook_request" where
  "checkout_completed sid amountTotal =
     signed_event ''checkout.session.completed'' sid amountTotal"

definition funded_db :: database where
  "funded_db =
     \<lparr> users = [''user_1'' \<mapsto> 100],
       wallet_transactions =
         [\<lparr> tx_user_id = ''user_1'', tx_type = Topup, tx_amount = 100,
            tx_credits_added = Some 4, tx_balance_after = Some 100,
            tx_payment_gateway_id = Some ''cs_0'',
            tx_description = ''Payment completed - 4 credits added'' \<rparr>],
       credit_usage = [], generated_images = [] \<rparr>"

definition table_cost :: "string \<Rightarrow> nat \<Rightarrow> nat" where
  "table_cost resolution imageCount = resolutionMultiplier resolution"

definition generation_env_failing :: "nat option \<Rightarrow> generation_env" where
  "generation_env_failing fault =
     \<lparr> provider_result = None, fallback_now = 1712, id_now = 1713,
       id_random = ''k3j9x2a1b'', db_fault = fault \<rparr>"

definition generation_request_at :: "string \<Rightarrow> generation_request" where
  "generation_request_at resolution =
     \<lparr> req_user = Some ''user_1'', req_prompt = ''red mug'',
       req_resolution = resolution, req_generationType = ''studio'',
       req_productImages = [''data:image/png;base64,AAAA''] \<rparr>"

definition generation_env_stored :: "string \<Rightarrow> generation_env" where
  "generation_env_stored imageUrl =
     \<lparr> provider_result = Some imageUrl, fallback_now = 1712, id_now = 1713,
       id_random = ''k3j9x2a1b'', db_fault = None \<rparr>"

section \<open>Properties of the cost and bonus functions\<close>

text \<open>
  C9.  The bonus depends on the payment amount alone and follows the schedule: 50 from
  5000 up, 15 from 2500 up to 5000, 5 from 1000 up to 2500, and 0 below 1000.
\<close>

theorem calculateBonusCredits_schedule:
  "(5000 \<le> amount \<longrightarrow> calculateBonusCredits amount = 50) \<and>
   (2500 \<le> amount \<and> amount < 5000 \<longrightarrow> calculateBonusCredits amount = 15) \<and>
   (1000 \<le> amount \<and> amount < 2500 \<longrightarrow> calculateBonusCredits amount = 5) \<and>
   (amount < 1000 \<longrightarrow> calculateBonusCredits amount = 0)"
  by (simp add: calculateBonusCredits_def)

theorem calculateBonusCredits_schedule_witness:
  "calculateBonusCredits 5000 = 50 \<and> calculateBonusCredits 4999 = 15 \<and>
   calculateBonusCredits 2500 = 15 \<and> calculateBonusCredits 1000 = 5 \<and>
   calculateBonusCredits (1999 / 2) = 0"
  using calculateBonusCredits_schedule [of 5000] calculateBonusCredits_schedule [of 4999]
    calculateBonusCredits_schedule [of 2500] calculateBonusCredits_schedule [of 1000]
    calculateBonusCredits_schedule [of "1999 / 2"]
  by simp

text \<open>
  C8.  The credit cost is a function of the resolution tier alone: for every image count
  of at least one it is 1, 2, 2, 3 and 5 credits on the five tiers, it is at least 1 on
  every resolution, it does not change with the image count, it is the \<open>credits\<close>
  column of \<open>RESOLUTIONS\<close>, and the price in rupees is 25 times the credits.
\<close>

theorem calculateCreditCost_tiers:
  "1 \<le> n \<Longrightarrow>
     calculateCreditCost ''1024x1024'' n = 1 \<and>
     calculateCreditCost ''1920x1080'' n = 2 \<and>
     calculateCreditCost ''1080x1920'' n = 2 \<and>
     calculateCreditCost ''2560x1440'' n = 3 \<and>
     calculateCreditCost ''3840x2160'' n = 5 \<and>
     1 \<le> calculateCreditCost r n \<and>
     calculateCreditCost r n = calculateCreditCost r m \<and>
     calculateCreditCost r n = resolutionMultiplier r \<and>
     rupeesCost (calculateCreditCost r n) = 25 * of_nat (calculateCreditCost r n)"
  by (simp add: calculateCreditCost_def resolutionMultiplier_def RESOLUTIONS_def
      rupeesCost_def)

theorem calculateCreditCost_tiers_witness:
  "calculateCreditCost ''1024x1024'' 3 = 1 \<and>
   calculateCreditCost ''3840x2160'' 3 = 5 \<and>
   calculateCreditCost ''1920x1080'' 3 = calculateCreditCost ''1920x1080'' 1 \<and>
   resolutionMultiplier ''1920x1080'' = 2 \<and>
   rupeesCost (calculateCreditCost ''1920x1080'' 3) = 50"
  using calculateCreditCost_tiers [of 3 "''1920x1080''" 1]
  by (simp add: calculateCreditCost_def)

section \<open>Evaluation rules\<close>

lemmas example_defs =
  fresh_db_def webhook_env_ok_def signed_event_def checkout_completed_def funded_db_def
  table_cost_def generation_env_failing_def generation_request_at_def new_run_def

lemmas handler_defs =
  stripe_webhook_def verifyStripeSignature_def rejects_def select_wallet_balance_def
  update_wallet_balance_def add_wallet_balance_def insert_wallet_transaction_def
  insert_credit_usage_def insert_generated_image_def updateWalletBalance_def
  generate_def generate_check_def generate_commit_def rupeesCost_def
  resolutionMultiplier_def RESOLUTIONS_def generateImageWithGoogle_def placeholder_url_def
  nth_or_undefined_def enhanceProductPrompt_def show_nat.simps show_int_def digit_def
  Let_def

lemma select_wallet_balance_Some:
  "users db userId = Some b \<Longrightarrow> select_wallet_balance db userId = b"
  by (simp add: select_wallet_balance_def)

lemma select_wallet_balance_None:
  "users db userId = None \<Longrightarrow> select_wallet_balance db userId = 0"
  by (simp add: select_wallet_balance_def)

lemma verifyStripeSignature_nonempty:
  "verifyStripeSignature signature secret \<Longrightarrow> signature \<noteq> []"
  by (auto simp: verifyStripeSignature_def)

lemma users_update_wallet_balance:
  "users db userId = Some b \<Longrightarrow>
     users (update_wallet_balance userId v db) = (users db)(userId \<mapsto> v)"
  by (simp add: update_wallet_balance_def)

lemma tables_update_wallet_balance:
  "wallet_transactions (update_wallet_balance userId v db) = wallet_transactions db"
  "credit_usage (update_wallet_balance userId v db) = credit_usage db"
  "generated_images (update_wallet_balance userId v db) = generated_images db"
  by (simp_all add: update_wallet_balance_def split: option.split)

lemma tables_insert_wallet_transaction:
  "users (insert_wallet_transaction t db) = users db"
  "wallet_transactions (insert_wallet_transaction t db) = wallet_transactions db @ [t]"
  "credit_usage (insert_wallet_transaction t db) = credit_usage db"
  "generated_images (insert_wallet_transaction t db) = generated_images db"
  by (simp_all add: insert_wallet_transaction_def)

lemma tables_insert_credit_usage:
  "users (insert_credit_usage r db) = users db"
  "wallet_transactions (insert_credit_usage r db) = wallet_transactions db"
  "credit_usage (insert_credit_usage r db) = credit_usage db @ [r]"
  "generated_images (insert_credit_usage r db) = generated_images db"
  by (simp_all add: insert_credit_usage_def)

lemma tables_insert_generated_image:
  "users (insert_generated_image r db) = users db"
  "wallet_transactions (insert_generated_image r db) = wallet_transactions db"
  "credit_usage (insert_generated_image r db) = credit_usage db"
  "generated_images (insert_generated_image r db) = generated_images db @ [r]"
  by (simp_all add: insert_generated_image_def)

lemmas table_simps =
  users_update_wallet_balance tables_update_wallet_balance tables_insert_wallet_transaction
  tables_insert_credit_usage tables_insert_generated_image

text \<open>
  A signed \<open>checkout.session.completed\<close> event whose three statements run: the balance
  is set to the balance read plus \<open>amount_total / 100\<close>, and one \<open>topup\<close> row is
  appended.
\<close>

lemma stripe_webhook_completed:
  assumes "wh_signature req = Some signature"
    and "verifyStripeSignature signature (STRIPE_WEBHOOK_SECRET env)"
    and "wh_event req = Some event"
    and "event_type event = ''checkout.session.completed''"
    and "event_session event = Some session"
    and "wh_db_fault env = None"
  shows "stripe_webhook env req db =
           (insert_wallet_transaction
              \<lparr> tx_user_id = session_user_id session,
                tx_type = Topup,
                tx_amount = session_amount_total session / 100,
                tx_credits_added = Some \<lfloor>session_amount_total session / 100 / 25\<rfloor>,
                tx_balance_after =
                  Some (select_wallet_balance db (session_user_id session) +
                        session_amount_total session / 100),
                tx_payment_gateway_id = Some (session_id session),
                tx_description =
                  ''Payment completed - '' @
                  show_int \<lfloor>session_amount_total session / 100 / 25\<rfloor> @
                  '' credits added'' \<rparr>
              (update_wallet_balance (session_user_id session)
                 (select_wallet_balance db (session_user_id session) +
                  session_amount_total session / 100) db),
            Received)"
  using assms verifyStripeSignature_nonempty [of signature "STRIPE_WEBHOOK_SECRET env"]
  by (simp add: stripe_webhook_def rejects_def Let_def)

section \<open>The webhook\<close>

text \<open>
  C10.  A webhook request whose signature verifies and whose payload parses to an event
  of a type other than \<open>checkout.session.completed\<close> is answered with
  \<open>received: true\<close>, and the database is the one before the request: no balance is
  changed and no ledger row is appended.
\<close>

theorem stripe_webhook_other_event:
  assumes "wh_signature req = Some signature"
    and "verifyStripeSignature signature (STRIPE_WEBHOOK_SECRET env)"
    and "wh_event req = Some event"
    and "event_type event \<noteq> ''checkout.session.completed''"
  shows "stripe_webhook env req db = (db, Received)"
  using assms verifyStripeSignature_nonempty [of signature "STRIPE_WEBHOOK_SECRET env"]
  by (simp add: stripe_webhook_def)

theorem stripe_webhook_other_event_witness:
  "verifyStripeSignature ''t=1,v1=ab'' (STRIPE_WEBHOOK_SECRET webhook_env_ok) \<and>
   stripe_webhook webhook_env_ok (signed_event ''payment_intent.succeeded'' ''pi_1'' 100000)
     funded_db = (funded_db, Received)"
proof -
  have sig: "verifyStripeSignature ''t=1,v1=ab'' (STRIPE_WEBHOOK_SECRET webhook_env_ok)"
    by (simp add: verifyStripeSignature_def webhook_env_ok_def)
  have "stripe_webhook webhook_env_ok
          (signed_event ''payment_intent.succeeded'' ''pi_1'' 100000) funded_db =
        (funded_db, Received)"
    using stripe_webhook_other_event
      [of "signed_event ''payment_intent.succeeded'' ''pi_1'' 100000" "''t=1,v1=ab''"
          webhook_env_ok
          "\<lparr> event_type = ''payment_intent.succeeded'',
             event_session = Some \<lparr> session_id = ''pi_1'', session_user_id = ''user_1'',
               session_amount_total = 100000 \<rparr> \<rparr>"
          funded_db]
      sig
    by (simp add: signed_event_def)
  with sig show ?thesis by simp
qed

text \<open>
  C1, as the code has it.  The handler never reads \<open>wallet_transactions\<close>, so a second
  delivery of the same signed \<open>checkout.session.completed\<close> event is applied like the
  first: for a user of the \<open>users\<close> table and statements that all run, both deliveries
  answer \<open>received: true\<close>, the balance after the two is the prior balance plus twice
  \<open>amount_total / 100\<close>, and two \<open>topup\<close> rows with the same \<open>payment_gateway_id\<close> are
  appended.
\<close>

theorem stripe_webhook_redelivery_credits_again:
  assumes "wh_signature req = Some signature"
    and "verifyStripeSignature signature (STRIPE_WEBHOOK_SECRET env)"
    and "wh_event req = Some event"
    and "event_type event = ''checkout.session.completed''"
    and "event_session event = Some session"
    and "wh_db_fault env = None"
    and "users db (session_user_id session) = Some b"
    and "amount = session_amount_total session / 100"
    and "db1 = fst (stripe_webhook env req db)"
    and "db2 = fst (stripe_webhook env req db1)"
  shows "snd (stripe_webhook env req db) = Received \<and>
         snd (stripe_webhook env req db1) = Received \<and>
         users db1 = (users db)(session_user_id session \<mapsto> b + amount) \<and>
         users db2 = (users db)(session_user_id session \<mapsto> b + amount + amount) \<and>
         length (wallet_transactions db2) = length (wallet_transactions db) + 2 \<and>
         map tx_type (wallet_transactions db2) =
           map tx_type (wallet_transactions db) @ [Topup, Topup] \<and>
         map tx_amount (wallet_transactions db2) =
           map tx_amount (wallet_transactions db) @ [amount, amount] \<and>
         map tx_balance_after (wallet_transactions db2) =
           map tx_balance_after (wallet_transactions db) @
             [Some (b + amount), Some (b + amount + amount)] \<and>
         map tx_payment_gateway_id (wallet_transactions db2) =
           map tx_payment_gateway_id (wallet_transactions db) @
             [Some (session_id session), Some (session_id session)]"
proof -
  let ?a = "session_amount_total session / 100"
  let ?w1 = "stripe_webhook env req db"
  note first = stripe_webhook_completed [OF assms(1-6), of db]
  have u1: "users (fst ?w1) = (users db)(session_user_id session \<mapsto> b + ?a)"
    using assms(7) by (simp add: first table_simps select_wallet_balance_Some)
  then have b1: "users (fst ?w1) (session_user_id session) = Some (b + ?a)"
    by simp
  have rows1: "wallet_transactions (fst ?w1) = wallet_transactions db @
      [\<lparr> tx_user_id = session_user_id session, tx_type = Topup, tx_amount = ?a,
         tx_credits_added = Some \<lfloor>?a / 25\<rfloor>, tx_balance_after = Some (b + ?a),
         tx_payment_gateway_id = Some (session_id session),
         tx_description = ''Payment completed - '' @ show_int \<lfloor>?a / 25\<rfloor> @
           '' credits added'' \<rparr>]"
    using assms(7) by (simp add: first table_simps select_wallet_balance_Some)
  let ?w2 = "stripe_webhook env req (fst ?w1)"
  note second = stripe_webhook_completed [OF assms(1-6), of "fst ?w1"]
  have u2: "users (fst ?w2) = (users db)(session_user_id session \<mapsto> b + ?a + ?a)"
    using b1 u1
    by (simp only: second fst_conv table_simps select_wallet_balance_Some fun_upd_upd)
  have rows2: "wallet_transactions (fst ?w2) = wallet_transactions (fst ?w1) @
      [\<lparr> tx_user_id = session_user_id session, tx_type = Topup, tx_amount = ?a,
         tx_credits_added = Some \<lfloor>?a / 25\<rfloor>,
         tx_balance_after = Some (b + ?a + ?a),
         tx_payment_gateway_id = Some (session_id session),
         tx_description = ''Payment completed - '' @ show_int \<lfloor>?a / 25\<rfloor> @
           '' credits added'' \<rparr>]"
    using b1
    by (simp only: second fst_conv table_simps select_wallet_balance_Some)
  have r1: "snd ?w1 = Received" by (simp add: first)
  have r2: "snd ?w2 = Received" by (simp only: second snd_conv)
  show ?thesis
    unfolding assms(8-10)
    using u1 u2 r1 r2 by (simp add: rows1 rows2)
qed

theorem stripe_webhook_redelivery_credits_again_witness:
  "users (fst (stripe_webhook webhook_env_ok (checkout_completed ''cs_1'' 100000)
       (fst (stripe_webhook webhook_env_ok (checkout_completed ''cs_1'' 100000) funded_db))))
     ''user_1'' = Some 2100 \<and>
   map tx_payment_gateway_id
     (wallet_transactions
       (fst (stripe_webhook webhook_env_ok (checkout_completed ''cs_1'' 100000)
         (fst (stripe_webhook webhook_env_ok (checkout_completed ''cs_1'' 100000) funded_db)))))
     = [Some ''cs_0'', Some ''cs_1'', Some ''cs_1'']"
  using stripe_webhook_redelivery_credits_again
    [of "checkout_completed ''cs_1'' 100000" "''t=1,v1=ab''" webhook_env_ok
        "\<lparr> event_type = ''checkout.session.completed'',
           event_session = Some \<lparr> session_id = ''cs_1'', session_user_id = ''user_1'',
             session_amount_total = 100000 \<rparr> \<rparr>"
        "\<lparr> session_id = ''cs_1'', session_user_id = ''user_1'',
           session_amount_total = 100000 \<rparr>"
        funded_db 100 1000
        "fst (stripe_webhook webhook_env_ok (checkout_completed ''cs_1'' 100000) funded_db)"
        "fst (stripe_webhook webhook_env_ok (checkout_completed ''cs_1'' 100000)
          (fst (stripe_webhook webhook_env_ok (checkout_completed ''cs_1'' 100000) funded_db)))"]
  by (simp add: checkout_completed_def signed_event_def webhook_env_ok_def
      verifyStripeSignature_def funded_db_def)

text \<open>
  C1, as stated, fails: the user of \<open>funded_db\<close> has 100 rupees; the event \<open>cs_1\<close> over
  1000 rupees is delivered twice; the second delivery is answered with
  \<open>received: true\<close> and raises the balance from 1100 to 2100, with a second \<open>topup\<close>
  row for \<open>cs_1\<close>.
\<close>

theorem stripe_webhook_redelivery_counterexample:
  "users (fst (stripe_webhook webhook_env_ok (checkout_completed ''cs_1'' 100000) funded_db))
     ''user_1'' = Some 1100 \<and>
   stripe_webhook webhook_env_ok (checkout_completed ''cs_1'' 100000)
     (fst (stripe_webhook webhook_env_ok (checkout_completed ''cs_1'' 100000) funded_db)) \<noteq>
     (fst (stripe_webhook webhook_env_ok (checkout_completed ''cs_1'' 100000) funded_db),
      Received) \<and>
   snd (stripe_webhook webhook_env_ok (checkout_completed ''cs_1'' 100000)
     (fst (stripe_webhook webhook_env_ok (checkout_completed ''cs_1'' 100000) funded_db)))
     = Received \<and>
   users (fst (stripe_webhook webhook_env_ok (checkout_completed ''cs_1'' 100000)
     (fst (stripe_webhook webhook_env_ok (checkout_completed ''cs_1'' 100000) funded_db))))
     ''user_1'' = Some 2100 \<and>
   map tx_payment_gateway_id (wallet_transactions
     (fst (stripe_webhook webhook_env_ok (checkout_completed ''cs_1'' 100000)
       (fst (stripe_webhook webhook_env_ok (checkout_completed ''cs_1'' 100000) funded_db)))))
     = [Some ''cs_0'', Some ''cs_1'', Some ''cs_1''] \<and>
   map tx_amount (wallet_transactions
     (fst (stripe_webhook webhook_env_ok (checkout_completed ''cs_1'' 100000)
       (fst (stripe_webhook webhook_env_ok (checkout_completed ''cs_1'' 100000) funded_db)))))
     = [100, 1000, 1000]"
  by (simp add: example_defs handler_defs)

text \<open>
  C7, as the code has it.  A signed \<open>checkout.session.completed\<close> event for a user of the
  \<open>users\<close> table, all statements running, appends exactly one ledger row: a \<open>topup\<close>
  of \<open>amount_total / 100\<close> with \<open>credits_added\<close> the whole number of 25-rupee credits
  in it and the session id as gateway reference, and the balance becomes the prior
  balance plus that amount.  The handler does not read the bonus of the checkout
  metadata: no \<open>bonus\<close> row is written and nothing is added for it.  For 1000 rupees
  that is one \<open>topup\<close> of 1000 with 40 credits and the balance prior plus 1000.
\<close>

theorem stripe_webhook_single_topup:
  assumes "wh_signature req = Some signature"
    and "verifyStripeSignature signature (STRIPE_WEBHOOK_SECRET env)"
    and "wh_event req = Some event"
    and "event_type event = ''checkout.session.completed''"
    and "event_session event = Some session"
    and "wh_db_fault env = None"
    and "users db (session_user_id session) = Some b"
    and "amount = session_amount_total session / 100"
  shows "stripe_webhook env req db =
           (db\<lparr> users := (users db)(session_user_id session \<mapsto> b + amount),
                wallet_transactions := wallet_transactions db @
                  [\<lparr> tx_user_id = session_user_id session,
                     tx_type = Topup,
                     tx_amount = amount,
                     tx_credits_added = Some \<lfloor>amount / 25\<rfloor>,
                     tx_balance_after = Some (b + amount),
                     tx_payment_gateway_id = Some (session_id session),
                     tx_description =
                       ''Payment completed - '' @ show_int \<lfloor>amount / 25\<rfloor> @
                       '' credits added'' \<rparr>] \<rparr>,
            Received)"
  unfolding assms(8)
  using assms(7)
  by (simp add: stripe_webhook_completed [OF assms(1-6)] select_wallet_balance_Some
      update_wallet_balance_def insert_wallet_transaction_def)

theorem stripe_webhook_single_topup_witness:
  "stripe_webhook webhook_env_ok (checkout_completed ''cs_1'' 100000) funded_db =
     (funded_db\<lparr> users := [''user_1'' \<mapsto> 1100],
        wallet_transactions := wallet_transactions funded_db @
          [\<lparr> tx_user_id = ''user_1'', tx_type = Topup, tx_amount = 1000,
             tx_credits_added = Some 40, tx_balance_after = Some 1100,
             tx_payment_gateway_id = Some ''cs_1'',
             tx_description = ''Payment completed - 40 credits added'' \<rparr>] \<rparr>,
      Received)"
  using stripe_webhook_single_topup
    [of "checkout_completed ''cs_1'' 100000" "''t=1,v1=ab''" webhook_env_ok
        "\<lparr> event_type = ''checkout.session.completed'',
           event_session = Some \<lparr> session_id = ''cs_1'', session_user_id = ''user_1'',
             session_amount_total = 100000 \<rparr> \<rparr>"
        "\<lparr> session_id = ''cs_1'', session_user_id = ''user_1'',
           session_amount_total = 100000 \<rparr>"
        funded_db 100 1000]
  by (simp add: checkout_completed_def signed_event_def webhook_env_ok_def
      verifyStripeSignature_def funded_db_def show_int_def show_nat.simps digit_def)

text \<open>
  C7, as stated, fails: for the fresh user and a payment of 1000 rupees, whose bonus by
  the schedule is 5, the ledger holds one row after the event, a \<open>topup\<close> of 1000, and
  the balance is 1000.
\<close>

theorem stripe_webhook_bonus_counterexample:
  "calculateBonusCredits 1000 = 5 \<and>
   users fresh_db ''user_1'' = Some 0 \<and>
   snd (stripe_webhook webhook_env_ok (checkout_completed ''cs_1'' 100000) fresh_db)
     = Received \<and>
   map tx_type (wallet_transactions
     (fst (stripe_webhook webhook_env_ok (checkout_completed ''cs_1'' 100000) fresh_db)))
     = [Topup] \<and>
   map tx_amount (wallet_transactions
     (fst (stripe_webhook webhook_env_ok (checkout_completed ''cs_1'' 100000) fresh_db)))
     = [1000] \<and>
   users (fst (stripe_webhook webhook_env_ok (checkout_completed ''cs_1'' 100000) fresh_db))
     ''user_1'' = Some 1000"
  by (simp add: example_defs handler_defs calculateBonusCredits_def)

section \<open>The generation request\<close>

text \<open>
  The balance check of the handler: a generation request of an authenticated user with
  at least one product image whose price in rupees is above the balance the handler
  reads (the user's \<open>wallet_balance\<close>, or 0 when the user has no row) is answered with
  \<open>Insufficient wallet balance\<close>, \<open>required\<close> the price and \<open>current\<close> the balance read;
  the database is the one before the request.
\<close>

lemma generate_insufficient_balance:
  assumes "req_user req = Some userId"
    and "req_productImages req \<noteq> []"
    and "db_fault env \<noteq> Some 0"
    and "required = rupeesCost (cost (req_resolution req) (length (req_productImages req)))"
    and "select_wallet_balance db userId < required"
  shows "generate cost env req db =
           (db, Insufficient_balance required (select_wallet_balance db userId))"
  using assms(1-3,5) unfolding assms(4)
  by (simp add: generate_def generate_check_def rejects_def Let_def)

text \<open>
  A debit through \<open>updateWalletBalance\<close> of an amount above the balance: the batch is
  accepted, the balance goes below zero and the \<open>deduct\<close> row is appended.
\<close>

lemma updateWalletBalance_overdraws:
  assumes "users db userId = Some b" and "b < d" and "0 \<le> d"
  shows "updateWalletBalance None userId (- d) description db =
           Some (db\<lparr> users := (users db)(userId \<mapsto> b - d),
                   wallet_transactions := wallet_transactions db @
                     [\<lparr> tx_user_id = userId,
                        tx_type = Deduct,
                        tx_amount = d,
                        tx_credits_added = None,
                        tx_balance_after = Some (b - d),
                        tx_payment_gateway_id = None,
                        tx_description = description \<rparr>] \<rparr>)"
  using assms
  by (simp add: updateWalletBalance_def rejects_def add_wallet_balance_def
      insert_wallet_transaction_def Let_def)

text \<open>
  C3, as the code has it.  The sufficiency check is the generation handler's, made
  before the provider call: a generation request of an authenticated user with at least
  one product image whose price is strictly above the balance read is refused with
  \<open>Insufficient wallet balance\<close>, reporting \<open>required\<close> and \<open>current\<close>, and the database
  is the one before the request, so no balance is changed and no ledger row is appended.
  The ledger operation itself, \<open>DatabaseService.updateWalletBalance\<close>, makes no check:
  for a user with the balance \<open>b\<close> a debit of \<open>d\<close> above \<open>b\<close> is accepted, the balance
  becomes \<open>b - d\<close>, below zero, and one \<open>deduct\<close> row of \<open>d\<close> with that
  \<open>balance_after\<close> is appended.
\<close>

theorem debit_check_is_the_handlers:
  "(req_user req = Some userId \<and> req_productImages req \<noteq> [] \<and> db_fault env \<noteq> Some 0 \<and>
    select_wallet_balance db userId <
      rupeesCost (cost (req_resolution req) (length (req_productImages req)))
    \<longrightarrow>
      generate cost env req db =
        (db, Insufficient_balance
               (rupeesCost (cost (req_resolution req) (length (req_productImages req))))
               (select_wallet_balance db userId))) \<and>
   (users db u = Some b \<and> b < d \<and> 0 \<le> d
    \<longrightarrow>
      b - d < 0 \<and>
      updateWalletBalance None u (- d) description db =
        Some (db\<lparr> users := (users db)(u \<mapsto> b - d),
                wallet_transactions := wallet_transactions db @
                  [\<lparr> tx_user_id = u,
                     tx_type = Deduct,
                     tx_amount = d,
                     tx_credits_added = None,
                     tx_balance_after = Some (b - d),
                     tx_payment_gateway_id = None,
                     tx_description = description \<rparr>] \<rparr>))"
proof (intro conjI impI)
  assume "req_user req = Some userId \<and> req_productImages req \<noteq> [] \<and>
    db_fault env \<noteq> Some 0 \<and>
    select_wallet_balance db userId <
      rupeesCost (cost (req_resolution req) (length (req_productImages req)))"
  then show "generate cost env req db =
        (db, Insufficient_balance
               (rupeesCost (cost (req_resolution req) (length (req_productImages req))))
               (select_wallet_balance db userId))"
    by (simp add: generate_insufficient_balance)
next
  assume h: "users db u = Some b \<and> b < d \<and> 0 \<le> d"
  then show "b - d < 0" by simp
  from h show "updateWalletBalance None u (- d) description db =
        Some (db\<lparr> users := (users db)(u \<mapsto> b - d),
                wallet_transactions := wallet_transactions db @
                  [\<lparr> tx_user_id = u,
                     tx_type = Deduct,
                     tx_amount = d,
                     tx_credits_added = None,
                     tx_balance_after = Some (b - d),
                     tx_payment_gateway_id = None,
                     tx_description = description \<rparr>] \<rparr>)"
    by (simp add: updateWalletBalance_overdraws)
qed

theorem debit_check_is_the_handlers_witness:
  "users funded_db ''user_1'' = Some 100 \<and>
   select_wallet_balance funded_db ''user_1'' = 100 \<and>
   rupeesCost (table_cost ''3840x2160'' 1) = 125 \<and>
   generate table_cost (generation_env_failing None) (generation_request_at ''3840x2160'')
     funded_db = (funded_db, Insufficient_balance 125 100) \<and>
   updateWalletBalance None ''user_1'' (- 125) ''Image generation'' funded_db =
     Some (funded_db\<lparr> users := [''user_1'' \<mapsto> - 25],
             wallet_transactions := wallet_transactions funded_db @
               [\<lparr> tx_user_id = ''user_1'', tx_type = Deduct, tx_amount = 125,
                  tx_credits_added = None, tx_balance_after = Some (- 25),
                  tx_payment_gateway_id = None,
                  tx_description = ''Image generation'' \<rparr>] \<rparr>)"
proof -
  have balance: "users funded_db ''user_1'' = Some 100"
    and read: "select_wallet_balance funded_db ''user_1'' = 100"
    by (simp_all add: funded_db_def select_wallet_balance_def)
  have price: "rupeesCost (table_cost ''3840x2160'' 1) = 125"
    by (simp add: table_cost_def resolutionMultiplier_def RESOLUTIONS_def rupeesCost_def)
  have req: "req_user (generation_request_at ''3840x2160'') = Some ''user_1''"
    "req_productImages (generation_request_at ''3840x2160'') \<noteq> []"
    "req_resolution (generation_request_at ''3840x2160'') = ''3840x2160''"
    "length (req_productImages (generation_request_at ''3840x2160'')) = 1"
    by (simp_all add: generation_request_at_def)
  have env: "db_fault (generation_env_failing None) \<noteq> Some 0"
    by (simp add: generation_env_failing_def)
  note both = debit_check_is_the_handlers
    [of "generation_request_at ''3840x2160''" "''user_1''" "generation_env_failing None"
        funded_db table_cost "''user_1''" 100 125 "''Image generation''"]
  from both req env read price
  have refused: "generate table_cost (generation_env_failing None)
      (generation_request_at ''3840x2160'') funded_db =
      (funded_db, Insufficient_balance 125 100)"
    by simp
  from both balance
  have accepted: "updateWalletBalance None ''user_1'' (- 125) ''Image generation'' funded_db =
     Some (funded_db\<lparr> users := (users funded_db)(''user_1'' \<mapsto> 100 - 125),
             wallet_transactions := wallet_transactions funded_db @
               [\<lparr> tx_user_id = ''user_1'', tx_type = Deduct, tx_amount = 125,
                  tx_credits_added = None, tx_balance_after = Some (100 - 125),
                  tx_payment_gateway_id = None,
                  tx_description = ''Image generation'' \<rparr>] \<rparr>)"
    by simp
  have "(users funded_db)(''user_1'' \<mapsto> 100 - 125) = [''user_1'' \<mapsto> - 25]"
    by (simp add: funded_db_def)
  with accepted balance read price refused show ?thesis by simp
qed

text \<open>
  C3, as stated, fails: the user of \<open>funded_db\<close> has 100 rupees; a debit of 125 through
  \<open>updateWalletBalance\<close> does not fail, the balance becomes -25 and a \<open>deduct\<close> row of
  125 is appended to the one row of the ledger.
\<close>

theorem updateWalletBalance_overdraw_counterexample:
  "users funded_db ''user_1'' = Some 100 \<and>
   length (wallet_transactions funded_db) = 1 \<and>
   updateWalletBalance None ''user_1'' (- 125) ''Image generation'' funded_db \<noteq> None \<and>
   updateWalletBalance None ''user_1'' (- 125) ''Image generation'' funded_db =
     Some \<lparr> users = [''user_1'' \<mapsto> - 25],
            wallet_transactions =
              [\<lparr> tx_user_id = ''user_1'', tx_type = Topup, tx_amount = 100,
                 tx_credits_added = Some 4, tx_balance_after = Some 100,
                 tx_payment_gateway_id = Some ''cs_0'',
                 tx_description = ''Payment completed - 4 credits added'' \<rparr>,
               \<lparr> tx_user_id = ''user_1'', tx_type = Deduct, tx_amount = 125,
                 tx_credits_added = None, tx_balance_after = Some (- 25),
                 tx_payment_gateway_id = None,
                 tx_description = ''Image generation'' \<rparr>],
            credit_usage = [], generated_images = [] \<rparr>"
  by (simp add: updateWalletBalance_def rejects_def add_wallet_balance_def
      insert_wallet_transaction_def funded_db_def Let_def)

text \<open>
  C2, as the code has it.  \<open>generateImageWithGoogle\<close> catches every failure of the
  provider call and returns the placeholder URL, so the handler cannot tell a failed
  generation from a successful one.  For an authenticated user of the \<open>users\<close> table
  with at least one product image and a balance that covers the price, all statements
  running, a request whose provider call fails is answered 200 with the placeholder URL
  and the new balance; the balance is debited by the price, and one \<open>deduct\<close> row, one
  \<open>credit_usage\<close> row and one \<open>generated_images\<close> row are appended.
\<close>

theorem generate_provider_failure_is_charged:
  assumes "req_user req = Some userId"
    and "req_productImages req \<noteq> []"
    and "db_fault env = None"
    and "provider_result env = None"
    and "users db userId = Some b"
    and "creditCost = cost (req_resolution req) (length (req_productImages req))"
    and "rupeesCost creditCost \<le> b"
    and "imageUrl = placeholder_url (req_resolution req) (fallback_now env)"
    and "generationId = ''img_'' @ show_nat (id_now env) @ ''_'' @ id_random env"
    and "enhancedPrompt =
           enhanceProductPrompt (req_prompt req) (req_generationType req) (req_resolution req)"
  shows "generate cost env req db =
           (db\<lparr> users := (users db)(userId \<mapsto> b - rupeesCost creditCost),
                wallet_transactions := wallet_transactions db @
                  [\<lparr> tx_user_id = userId,
                     tx_type = Deduct,
                     tx_amount = rupeesCost creditCost,
                     tx_credits_added = Some 0,
                     tx_balance_after = Some (b - rupeesCost creditCost),
                     tx_payment_gateway_id = None,
                     tx_description =
                       ''Image generation - '' @ req_resolution req @ '' - '' @
                       show_nat creditCost @ '' credits'' \<rparr>],
                credit_usage := credit_usage db @
                  [\<lparr> cu_user_id = userId,
                     cu_generation_id = generationId,
                     cu_credits_consumed = creditCost,
                     cu_generation_type = req_generationType req,
                     cu_resolution = req_resolution req,
                     cu_prompt = req_prompt req,
                     cu_image_url = imageUrl,
                     cu_cost_in_rupees = rupeesCost creditCost \<rparr>],
                generated_images := generated_images db @
                  [\<lparr> gi_id = generationId,
                     gi_user_id = userId,
                     gi_original_prompt = req_prompt req,
                     gi_enhanced_prompt = enhancedPrompt,
                     gi_image_url = imageUrl,
                     gi_resolution = req_resolution req,
                     gi_generation_type = req_generationType req,
                     gi_credits_used = creditCost \<rparr>] \<rparr>,
            Generated generationId imageUrl creditCost (b - rupeesCost creditCost)
              enhancedPrompt)"
proof -
  have balance: "select_wallet_balance db userId = b"
    using assms(5) by (rule select_wallet_balance_Some)
  have passes: "\<not> b < rupeesCost (cost (req_resolution req) (length (req_productImages req)))"
    using assms(7) unfolding assms(6) by simp
  show ?thesis
    unfolding assms(6,8,9,10)
    using assms(1-5) passes
    by (simp add: generate_def generate_check_def generate_commit_def rejects_def Let_def
        balance generateImageWithGoogle_def update_wallet_balance_def
        insert_wallet_transaction_def insert_credit_usage_def insert_generated_image_def)
qed

theorem generate_provider_failure_is_charged_witness:
  "provider_result (generation_env_failing None) = None \<and>
   users funded_db ''user_1'' = Some 100 \<and>
   snd (generate table_cost (generation_env_failing None)
          (generation_request_at ''1920x1080'') funded_db) =
     Generated ''img_1713_k3j9x2a1b'' ''https://picsum.photos/1920/1080?random=1712'' 2 50
       (enhanceProductPrompt ''red mug'' ''studio'' ''1920x1080'') \<and>
   users (fst (generate table_cost (generation_env_failing None)
          (generation_request_at ''1920x1080'') funded_db)) ''user_1'' = Some 50"
  using generate_provider_failure_is_charged
    [of "generation_request_at ''1920x1080''" "''user_1''" "generation_env_failing None"
        funded_db 100 2 table_cost "''https://picsum.photos/1920/1080?random=1712''"
        "''img_1713_k3j9x2a1b''" "enhanceProductPrompt ''red mug'' ''studio'' ''1920x1080''"]
  by (simp add: generation_request_at_def generation_env_failing_def table_cost_def
      funded_db_def rupeesCost_def resolutionMultiplier_def RESOLUTIONS_def
      placeholder_url_def nth_or_undefined_def show_nat.simps digit_def)

text \<open>
  C2, as stated, fails: the user of \<open>funded_db\<close> has 100 rupees and asks for a
  1920x1080 image (2 credits, 50 rupees); the provider call fails; the answer is the 200
  response with the placeholder URL, the balance is 50, and the ledger, the usage table
  and the image table have each gained a row.
\<close>

theorem generate_provider_failure_counterexample:
  "provider_result (generation_env_failing None) = None \<and>
   users funded_db ''user_1'' = Some 100 \<and>
   snd (generate table_cost (generation_env_failing None)
          (generation_request_at ''1920x1080'') funded_db) =
     Generated ''img_1713_k3j9x2a1b'' ''https://picsum.photos/1920/1080?random=1712'' 2 50
       (enhanceProductPrompt ''red mug'' ''studio'' ''1920x1080'') \<and>
   users (fst (generate table_cost (generation_env_failing None)
          (generation_request_at ''1920x1080'') funded_db)) ''user_1'' = Some 50 \<and>
   map tx_type (wallet_transactions (fst (generate table_cost (generation_env_failing None)
          (generation_request_at ''1920x1080'') funded_db))) = [Topup, Deduct] \<and>
   map tx_amount (wallet_transactions (fst (generate table_cost (generation_env_failing None)
          (generation_request_at ''1920x1080'') funded_db))) = [100, 50] \<and>
   map cu_image_url (credit_usage (fst (generate table_cost (generation_env_failing None)
          (generation_request_at ''1920x1080'') funded_db))) =
     [''https://picsum.photos/1920/1080?random=1712''] \<and>
   map gi_id (generated_images (fst (generate table_cost (generation_env_failing None)
          (generation_request_at ''1920x1080'') funded_db))) = [''img_1713_k3j9x2a1b'']"
  by (simp add: example_defs generate_def generate_check_def generate_commit_def
      rejects_def select_wallet_balance_def update_wallet_balance_def
      insert_wallet_transaction_def insert_credit_usage_def insert_generated_image_def
      rupeesCost_def resolutionMultiplier_def RESOLUTIONS_def generateImageWithGoogle_def
      placeholder_url_def nth_or_undefined_def show_nat.simps digit_def Let_def)

text \<open>
  C5, at the failing input.  The user of \<open>funded_db\<close> has 100 rupees and one ledger row.
  In a request for a 1920x1080 image the \<open>UPDATE\<close> of the balance runs and the insert of
  the ledger row rejects: the handler answers 500, the balance is 50, and the ledger is
  the one before the request.
\<close>

theorem generate_ledger_insert_rejected:
  "users funded_db ''user_1'' = Some 100 \<and>
   snd (generate table_cost (generation_env_failing (Some 2))
          (generation_request_at ''1920x1080'') funded_db) = Server_error \<and>
   users (fst (generate table_cost (generation_env_failing (Some 2))
          (generation_request_at ''1920x1080'') funded_db)) ''user_1'' = Some 50 \<and>
   wallet_transactions (fst (generate table_cost (generation_env_failing (Some 2))
          (generation_request_at ''1920x1080'') funded_db)) = wallet_transactions funded_db"
  by (simp add: example_defs generate_def generate_check_def generate_commit_def
      rejects_def select_wallet_balance_def update_wallet_balance_def
      rupeesCost_def resolutionMultiplier_def RESOLUTIONS_def Let_def)

text \<open>
  The sibling path, \<open>DatabaseService.updateWalletBalance\<close>, writes both or neither:
  a rejected batch leaves nothing behind, an accepted one changes the balance of an
  existing user by the amount and appends the one row.
\<close>

lemma updateWalletBalance_both_or_neither:
  "updateWalletBalance fault userId amount description db = None \<or>
   (\<exists>db'. updateWalletBalance fault userId amount description db = Some db' \<and>
      users db' = users (add_wallet_balance userId amount db) \<and>
      length (wallet_transactions db') = length (wallet_transactions db) + 1)"
  by (simp add: updateWalletBalance_def Let_def insert_wallet_transaction_def
      add_wallet_balance_def split: option.split)

text \<open>
  \<open>updateWalletBalance\<close> checks nothing: two debits of 75 rupees on the balance 100
  both go through and leave the balance at -50.
\<close>

lemma updateWalletBalance_unchecked:
  "map_option (\<lambda>db. users db ''user_1'')
     (Option.bind (updateWalletBalance None ''user_1'' (- 75) ''debit'' funded_db)
        (updateWalletBalance None ''user_1'' (- 75) ''debit'')) = Some (Some (- 50))"
  by (simp add: updateWalletBalance_def rejects_def add_wallet_balance_def
      insert_wallet_transaction_def funded_db_def Let_def)

section \<open>The ledger invariant\<close>



























section \<open>Two requests of one user\<close>

text \<open>
  A request that advances twice on its own has run the handler: the two halves of
  \<open>advance\<close> are the two halves of \<open>generate\<close>.
\<close>

lemma advance_twice_is_generate:
  "snd (advance cost (fst (advance cost (new_run env req) db))
          (snd (advance cost (new_run env req) db))) = fst (generate cost env req db) \<and>
   run_progress (fst (advance cost (fst (advance cost (new_run env req) db))
          (snd (advance cost (new_run env req) db)))) =
     Answered (snd (generate cost env req db))"
  by (cases "generate_check cost env req db")
    (simp_all add: advance_def new_run_def generate_def)

lemma advance_check_passes:
  assumes "req_user req = Some userId"
    and "req_productImages req \<noteq> []"
    and "db_fault env = None"
    and "users db userId = Some b"
    and "rupeesCost (cost (req_resolution req) (length (req_productImages req))) \<le> b"
  shows "advance cost (new_run env req) db =
           (\<lparr> run_env = env, run_req = req,
              run_progress = Checked
                \<lparr> pd_user = userId,
                  pd_creditCost = cost (req_resolution req) (length (req_productImages req)),
                  pd_rupeesCost =
                    rupeesCost (cost (req_resolution req) (length (req_productImages req))),
                  pd_currentBalance = b \<rparr> \<rparr>, db)"
proof -
  have "\<not> b < rupeesCost (cost (req_resolution req) (length (req_productImages req)))"
    using assms(5) by simp
  then show ?thesis
    using assms(1-4)
    by (simp add: advance_def new_run_def generate_check_def rejects_def Let_def
        select_wallet_balance_Some)
qed

lemma advance_commit:
  assumes "db_fault env = None" and "users db (pd_user pd) = Some b0"
  shows "run_progress (fst (advance cost
            \<lparr> run_env = env, run_req = req, run_progress = Checked pd \<rparr> db)) =
           Answered (Generated
             (''img_'' @ show_nat (id_now env) @ ''_'' @ id_random env)
             (generateImageWithGoogle env (req_resolution req))
             (pd_creditCost pd)
             (pd_currentBalance pd - pd_rupeesCost pd)
             (enhanceProductPrompt (req_prompt req) (req_generationType req)
                (req_resolution req)))"
    and "users (snd (advance cost
            \<lparr> run_env = env, run_req = req, run_progress = Checked pd \<rparr> db)) =
           (users db)(pd_user pd \<mapsto> pd_currentBalance pd - pd_rupeesCost pd)"
    and "wallet_transactions (snd (advance cost
            \<lparr> run_env = env, run_req = req, run_progress = Checked pd \<rparr> db)) =
           wallet_transactions db @
             [\<lparr> tx_user_id = pd_user pd,
                tx_type = Deduct,
                tx_amount = pd_rupeesCost pd,
                tx_credits_added = Some 0,
                tx_balance_after = Some (pd_currentBalance pd - pd_rupeesCost pd),
                tx_payment_gateway_id = None,
                tx_description =
                  ''Image generation - '' @ req_resolution req @ '' - '' @
                  show_nat (pd_creditCost pd) @ '' credits'' \<rparr>]"
  using assms
  by (simp_all add: advance_def generate_commit_def rejects_def Let_def table_simps)

text \<open>
  C6, as the code has it.  Two generation requests of one user of the \<open>users\<close> table,
  each authenticated, with a product image and a price the balance \<open>b\<close> covers, all
  statements running.  When both pass the balance check before either writes (the
  schedule first, second, first, second), both are answered 200 and neither with
  \<open>Insufficient wallet balance\<close>, whatever the two prices add up to: the first reports
  the new balance \<open>b - c1\<close>, the second \<open>b - c2\<close>; each writes the balance it read minus
  its own price, so the balance ends at \<open>b - c2\<close>, which is not negative, and two
  \<open>deduct\<close> rows are appended, of \<open>c1\<close> and of \<open>c2\<close>.
\<close>

theorem racing_requests_both_succeed:
  assumes "req_user req1 = Some userId" and "req_user req2 = Some userId"
    and "req_productImages req1 \<noteq> []" and "req_productImages req2 \<noteq> []"
    and "db_fault env1 = None" and "db_fault env2 = None"
    and "users db userId = Some b"
    and "n1 = cost (req_resolution req1) (length (req_productImages req1))"
    and "n2 = cost (req_resolution req2) (length (req_productImages req2))"
    and "c1 = rupeesCost n1" and "c2 = rupeesCost n2"
    and "c1 \<le> b" and "c2 \<le> b"
    and "final = run_schedule cost [First, Second, First, Second]
                   (new_run env1 req1) (new_run env2 req2) db"
  shows "run_progress (fst final) =
           Answered (Generated
             (''img_'' @ show_nat (id_now env1) @ ''_'' @ id_random env1)
             (generateImageWithGoogle env1 (req_resolution req1)) n1 (b - c1)
             (enhanceProductPrompt (req_prompt req1) (req_generationType req1)
                (req_resolution req1))) \<and>
         run_progress (fst (snd final)) =
           Answered (Generated
             (''img_'' @ show_nat (id_now env2) @ ''_'' @ id_random env2)
             (generateImageWithGoogle env2 (req_resolution req2)) n2 (b - c2)
             (enhanceProductPrompt (req_prompt req2) (req_generationType req2)
                (req_resolution req2))) \<and>
         users (snd (snd final)) = (users db)(userId \<mapsto> b - c2) \<and>
         0 \<le> b - c2 \<and>
         map tx_type (wallet_transactions (snd (snd final))) =
           map tx_type (wallet_transactions db) @ [Deduct, Deduct] \<and>
         map tx_amount (wallet_transactions (snd (snd final))) =
           map tx_amount (wallet_transactions db) @ [c1, c2] \<and>
         map tx_balance_after (wallet_transactions (snd (snd final))) =
           map tx_balance_after (wallet_transactions db) @ [Some (b - c1), Some (b - c2)]"
proof -
  let ?pd1 = "\<lparr> pd_user = userId, pd_creditCost = n1, pd_rupeesCost = c1,
                 pd_currentBalance = b \<rparr>"
  let ?pd2 = "\<lparr> pd_user = userId, pd_creditCost = n2, pd_rupeesCost = c2,
                 pd_currentBalance = b \<rparr>"
  let ?a1 = "\<lparr> run_env = env1, run_req = req1, run_progress = Checked ?pd1 \<rparr>"
  let ?a2 = "\<lparr> run_env = env2, run_req = req2, run_progress = Checked ?pd2 \<rparr>"
  have check1: "advance cost (new_run env1 req1) db = (?a1, db)"
    using advance_check_passes [OF assms(1,3,5,7), of cost] assms(12)
    unfolding assms(8,10) by simp
  have check2: "advance cost (new_run env2 req2) db = (?a2, db)"
    using advance_check_passes [OF assms(2,4,6,7), of cost] assms(13)
    unfolding assms(9,11) by simp
  let ?db1 = "snd (advance cost ?a1 db)"
  have u1: "users ?db1 = (users db)(userId \<mapsto> b - c1)"
    and rows1: "wallet_transactions ?db1 = wallet_transactions db @
             [\<lparr> tx_user_id = userId, tx_type = Deduct, tx_amount = c1,
                tx_credits_added = Some 0, tx_balance_after = Some (b - c1),
                tx_payment_gateway_id = None,
                tx_description =
                  ''Image generation - '' @ req_resolution req1 @ '' - '' @
                  show_nat n1 @ '' credits'' \<rparr>]"
    and r1: "run_progress (fst (advance cost ?a1 db)) =
           Answered (Generated
             (''img_'' @ show_nat (id_now env1) @ ''_'' @ id_random env1)
             (generateImageWithGoogle env1 (req_resolution req1)) n1 (b - c1)
             (enhanceProductPrompt (req_prompt req1) (req_generationType req1)
                (req_resolution req1)))"
    using advance_commit [of env1 db ?pd1 b cost req1] assms(5,7) by simp_all
  have b1: "users ?db1 (pd_user ?pd2) = Some (b - c1)"
    using u1 by simp
  let ?db2 = "snd (advance cost ?a2 ?db1)"
  have u2: "users ?db2 = (users db)(userId \<mapsto> b - c2)"
    and rows2: "wallet_transactions ?db2 = wallet_transactions ?db1 @
             [\<lparr> tx_user_id = userId, tx_type = Deduct, tx_amount = c2,
                tx_credits_added = Some 0, tx_balance_after = Some (b - c2),
                tx_payment_gateway_id = None,
                tx_description =
                  ''Image generation - '' @ req_resolution req2 @ '' - '' @
                  show_nat n2 @ '' credits'' \<rparr>]"
    and r2: "run_progress (fst (advance cost ?a2 ?db1)) =
           Answered (Generated
             (''img_'' @ show_nat (id_now env2) @ ''_'' @ id_random env2)
             (generateImageWithGoogle env2 (req_resolution req2)) n2 (b - c2)
             (enhanceProductPrompt (req_prompt req2) (req_generationType req2)
                (req_resolution req2)))"
    using advance_commit [OF assms(6) b1, of cost req2] u1 by simp_all
  have final: "final = (fst (advance cost ?a1 db), fst (advance cost ?a2 ?db1), ?db2)"
    unfolding assms(14) by (simp add: check1 check2)
  show ?thesis
    using assms(13) by (simp add: final r1 r2 u2 rows2 rows1)
qed

theorem racing_requests_both_succeed_witness:
  "users funded_db ''user_1'' = Some 100 \<and>
   rupeesCost (table_cost ''2560x1440'' 1) \<le> 100 \<and>
   rupeesCost (table_cost ''1920x1080'' 1) \<le> 100 \<and>
   users (snd (snd (run_schedule table_cost [First, Second, First, Second]
     (new_run (generation_env_stored ''https://r2.example/generated/1.png'')
        (generation_request_at ''2560x1440''))
     (new_run (generation_env_stored ''https://r2.example/generated/2.png'')
        (generation_request_at ''1920x1080''))
     funded_db))) ''user_1'' = Some 50 \<and>
   map tx_amount (wallet_transactions (snd (snd (run_schedule table_cost
     [First, Second, First, Second]
     (new_run (generation_env_stored ''https://r2.example/generated/1.png'')
        (generation_request_at ''2560x1440''))
     (new_run (generation_env_stored ''https://r2.example/generated/2.png'')
        (generation_request_at ''1920x1080''))
     funded_db)))) = [100, 75, 50]"
proof -
  let ?req1 = "generation_request_at ''2560x1440''"
  let ?req2 = "generation_request_at ''1920x1080''"
  let ?env1 = "generation_env_stored ''https://r2.example/generated/1.png''"
  let ?env2 = "generation_env_stored ''https://r2.example/generated/2.png''"
  have user1: "req_user ?req1 = Some ''user_1''" and user2: "req_user ?req2 = Some ''user_1''"
    and images1: "req_productImages ?req1 \<noteq> []" and images2: "req_productImages ?req2 \<noteq> []"
    by (simp_all add: generation_request_at_def)
  have fault1: "db_fault ?env1 = None" and fault2: "db_fault ?env2 = None"
    by (simp_all add: generation_env_stored_def)
  have balance: "users funded_db ''user_1'' = Some 100"
    by (simp add: funded_db_def)
  have n1: "3 = table_cost (req_resolution ?req1) (length (req_productImages ?req1))"
    and n2: "2 = table_cost (req_resolution ?req2) (length (req_productImages ?req2))"
    by (simp_all add: generation_request_at_def table_cost_def resolutionMultiplier_def
        RESOLUTIONS_def)
  have c1: "(75::money) = rupeesCost 3" and c2: "(50::money) = rupeesCost 2"
    by (simp_all add: rupeesCost_def)
  have le1: "(75::money) \<le> 100" and le2: "(50::money) \<le> 100"
    by simp_all
  have prices: "rupeesCost (table_cost ''2560x1440'' 1) \<le> 100"
    "rupeesCost (table_cost ''1920x1080'' 1) \<le> 100"
    by (simp_all add: table_cost_def resolutionMultiplier_def RESOLUTIONS_def rupeesCost_def)
  note both = racing_requests_both_succeed
    [OF user1 user2 images1 images2 fault1 fault2 balance n1 n2 c1 c2 le1 le2 refl]
  have rows: "map tx_amount (wallet_transactions funded_db) = [100]"
    by (simp add: funded_db_def)
  from both have "users (snd (snd (run_schedule table_cost [First, Second, First, Second]
      (new_run ?env1 ?req1) (new_run ?env2 ?req2) funded_db))) ''user_1'' = Some 50"
    by simp
  moreover from both have "map tx_amount (wallet_transactions (snd (snd (run_schedule
      table_cost [First, Second, First, Second]
      (new_run ?env1 ?req1) (new_run ?env2 ?req2) funded_db)))) = [100, 75, 50]"
    by (simp only: rows append.simps)
  ultimately show ?thesis
    using balance prices by blast
qed

text \<open>
  C6, as stated, fails: the user of \<open>funded_db\<close> has 100 rupees, and two requests for a
  2560x1440 image (3 credits, 75 rupees each) are in flight.  Each would succeed alone,
  together they cost 150.  On the schedule first, second, first, second both are
  answered 200 with the new balance 25, the balance ends at 25 and the ledger has two
  \<open>deduct\<close> rows of 75.  (Run one after the other, the second is refused with
  \<open>required\<close> 75 and \<open>current\<close> 25.)
\<close>

theorem racing_requests_counterexample:
  "users funded_db ''user_1'' = Some 100 \<and>
   rupeesCost (table_cost ''2560x1440'' 1) = 75 \<and>
   run_progress (fst (run_schedule table_cost [First, Second, First, Second]
     (new_run (generation_env_stored ''https://r2.example/generated/1.png'')
        (generation_request_at ''2560x1440''))
     (new_run (generation_env_stored ''https://r2.example/generated/2.png'')
        (generation_request_at ''2560x1440''))
     funded_db)) =
     Answered (Generated ''img_1713_k3j9x2a1b'' ''https://r2.example/generated/1.png'' 3 25
       (enhanceProductPrompt ''red mug'' ''studio'' ''2560x1440'')) \<and>
   run_progress (fst (snd (run_schedule table_cost [First, Second, First, Second]
     (new_run (generation_env_stored ''https://r2.example/generated/1.png'')
        (generation_request_at ''2560x1440''))
     (new_run (generation_env_stored ''https://r2.example/generated/2.png'')
        (generation_request_at ''2560x1440''))
     funded_db))) =
     Answered (Generated ''img_1713_k3j9x2a1b'' ''https://r2.example/generated/2.png'' 3 25
       (enhanceProductPrompt ''red mug'' ''studio'' ''2560x1440'')) \<and>
   users (snd (snd (run_schedule table_cost [First, Second, First, Second]
     (new_run (generation_env_stored ''https://r2.example/generated/1.png'')
        (generation_request_at ''2560x1440''))
     (new_run (generation_env_stored ''https://r2.example/generated/2.png'')
        (generation_request_at ''2560x1440''))
     funded_db))) ''user_1'' = Some 25 \<and>
   map tx_type (wallet_transactions (snd (snd (run_schedule table_cost
     [First, Second, First, Second]
     (new_run (generation_env_stored ''https://r2.example/generated/1.png'')
        (generation_request_at ''2560x1440''))
     (new_run (generation_env_stored ''https://r2.example/generated/2.png'')
        (generation_request_at ''2560x1440''))
     funded_db)))) = [Topup, Deduct, Deduct] \<and>
   map tx_amount (wallet_transactions (snd (snd (run_schedule table_cost
     [First, Second, First, Second]
     (new_run (generation_env_stored ''https://r2.example/generated/1.png'')
        (generation_request_at ''2560x1440''))
     (new_run (generation_env_stored ''https://r2.example/generated/2.png'')
        (generation_request_at ''2560x1440''))
     funded_db)))) = [100, 75, 75]"
  by (simp add: example_defs generation_env_stored_def advance_def generate_check_def
      generate_commit_def rejects_def select_wallet_balance_def update_wallet_balance_def
      insert_wallet_transaction_def insert_credit_usage_def insert_generated_image_def
      rupeesCost_def resolutionMultiplier_def RESOLUTIONS_def generateImageWithGoogle_def
      show_nat.simps digit_def Let_def)

lemma sequential_requests_second_refused:
  "run_progress (fst (snd (run_schedule table_cost [First, First, Second, Second]
     (new_run (generation_env_stored ''https://r2.example/generated/1.png'')
        (generation_request_at ''2560x1440''))
     (new_run (generation_env_stored ''https://r2.example/generated/2.png'')
        (generation_request_at ''2560x1440''))
     funded_db))) = Answered (Insufficient_balance 75 25)"
  by (simp add: example_defs generation_env_stored_def advance_def generate_check_def
      generate_commit_def rejects_def select_wallet_balance_def update_wallet_balance_def
      insert_wallet_transaction_def insert_credit_usage_def insert_generated_image_def
      rupeesCost_def resolutionMultiplier_def RESOLUTIONS_def generateImageWithGoogle_def
      show_nat.simps digit_def Let_def)

end
